theory Spec2Isabelle
  imports Complex_Main "HOL-Library.AList" "HOL-Library.Log_Nat"
begin

section \<open>Strings as the source uses them\<close>

text \<open>
  Source strings are modelled as \<open>string\<close> (lists of bytes, UTF-8). The helpers below are the
  JavaScript string operations the gateway, the coordinator and the reclassifier call.
  Case mapping and white space are the ASCII ones: a text with non-ASCII white space or
  with letters whose case mapping leaves ASCII is outside the model.
\<close>

fun starts_with :: "string \<Rightarrow> string \<Rightarrow> bool" where
  "starts_with s [] = True"
| "starts_with [] (p # ps) = False"
| "starts_with (c # cs) (p # ps) = (c = p \<and> starts_with cs ps)"

text \<open>\<open>s.includes(p)\<close>: \<open>p\<close> occurs somewhere in \<open>s\<close>.\<close>

fun includes_str :: "string \<Rightarrow> string \<Rightarrow> bool" where
  "includes_str [] p = (p = [])"
| "includes_str (c # cs) p = (starts_with (c # cs) p \<or> includes_str cs p)"

section \<open>Backchannel polling (ciba-standard: pollCIBAResult)\<close>

record CIBATokenResponse =
  access_token :: string
  id_token :: "string option"
  token_type :: string
  expires_in :: int
  scope :: "string option"

text \<open>
  What one polling attempt meets at the token endpoint: \<open>fetch\<close> or \<open>response.json()\<close>
  throws an error with the given message; the response is ok and carries tokens; or the
  response is not ok and its body carries \<open>error\<close> and \<open>error_description\<close>
  (\<open>None\<close> where the field is absent).
\<close>

datatype poll_response =
    FetchThrows string
  | ResponseOk CIBATokenResponse
  | ResponseError "string option" "string option"

text \<open>
  How \<open>pollCIBAResult\<close> ends: it returns the tokens, returns \<open>null\<close> (denied), or throws
  an \<open>Error\<close> with a message.
\<close>

datatype poll_outcome =
    Tokens CIBATokenResponse
  | DeniedNull
  | Thrown string

definition expired_message :: string where
  "expired_message = ''Authorization request expired - user did not respond in time''"

definition polling_failed_message :: string where
  "polling_failed_message = ''CIBA polling failed after maximum attempts''"

definition timeout_message :: string where
  "timeout_message = ''CIBA authorization timeout - user did not respond in time''"

text \<open>The message of the error thrown for an error code the loop does not know.\<close>

definition polling_error_message :: "string option \<Rightarrow> string option \<Rightarrow> string" where
  "polling_error_message err desc =
     ''CIBA polling error: '' @ (case err of None \<Rightarrow> ''undefined'' | Some e \<Rightarrow> e) @ '' - '' @
     (case desc of None \<Rightarrow> [] | Some d \<Rightarrow> d)"

text \<open>
  The body of the \<open>try\<close> of one attempt: \<open>Inr None\<close> is \<open>continue\<close>, \<open>Inr (Some r)\<close> is
  \<open>return r\<close>, and \<open>Inl m\<close> is an error with message \<open>m\<close> thrown inside the \<open>try\<close>, which
  the \<open>catch\<close> of the same attempt receives.
\<close>

definition poll_try :: "poll_response \<Rightarrow> string + poll_outcome option" where
  "poll_try r =
     (case r of
        FetchThrows m \<Rightarrow> Inl m
      | ResponseOk t \<Rightarrow> Inr (Some (Tokens t))
      | ResponseError err desc \<Rightarrow>
          if err = Some ''authorization_pending'' then Inr None
          else if err = Some ''access_denied'' then Inr (Some DeniedNull)
          else if err = Some ''expired_token'' then Inl expired_message
          else Inl (polling_error_message err desc))"

text \<open>
  The \<open>catch\<close> of one attempt: an error whose message includes \<open>CIBA polling error\<close> is
  thrown again; any other error ends the call only on the last attempt, with the
  "failed after maximum attempts" error, and is dropped otherwise.
\<close>

definition poll_catch :: "string \<Rightarrow> nat \<Rightarrow> nat \<Rightarrow> poll_outcome option" where
  "poll_catch m attempt maxAttempts =
     (if includes_str m ''CIBA polling error'' then Some (Thrown m)
      else if attempt = maxAttempts then Some (Thrown polling_failed_message)
      else None)"

text \<open>
  The \<open>for\<close> loop from attempt \<open>attempt\<close> on. \<open>respond n\<close> is what attempt \<open>n\<close> meets. The
  result pairs the outcome with the number of the last attempt made.
\<close>

function poll_from :: "(nat \<Rightarrow> poll_response) \<Rightarrow> nat \<Rightarrow> nat \<Rightarrow> poll_outcome \<times> nat" where
  "poll_from respond maxAttempts attempt =
     (if attempt \<le> maxAttempts then
        (case poll_try (respond attempt) of
           Inr (Some r) \<Rightarrow> (r, attempt)
         | Inr None \<Rightarrow> poll_from respond maxAttempts (Suc attempt)
         | Inl m \<Rightarrow>
             (case poll_catch m attempt maxAttempts of
                Some r \<Rightarrow> (r, attempt)
              | None \<Rightarrow> poll_from respond maxAttempts (Suc attempt)))
      else (Thrown timeout_message, maxAttempts))"
  by pat_completeness auto
termination
  by (relation "measure (\<lambda>(respond, maxAttempts, attempt). Suc maxAttempts - attempt)") auto

definition pollCIBAResult :: "(nat \<Rightarrow> poll_response) \<Rightarrow> nat \<Rightarrow> poll_outcome \<times> nat" where
  "pollCIBAResult respond maxAttempts = poll_from respond maxAttempts 1"

section \<open>More string operations\<close>

definition nl :: char where "nl = CHR 0x0A"
definition dquote :: char where "dquote = CHR 0x22"
definition backslash :: char where "backslash = CHR 0x5C"

text \<open>White space for \<open>trim\<close> and \<open>\s\<close>: space, tab, line feed, vertical tab, form feed, carriage return.\<close>

definition is_space :: "char \<Rightarrow> bool" where
  "is_space c = (c = CHR '' '' \<or> c = CHR 0x09 \<or> c = CHR 0x0A \<or> c = CHR 0x0B \<or> c = CHR 0x0C \<or> c = CHR 0x0D)"

definition trim :: "string \<Rightarrow> string" where
  "trim s = rev (dropWhile is_space (rev (dropWhile is_space s)))"

definition is_upper :: "char \<Rightarrow> bool" where
  "is_upper c = (65 \<le> (of_char c :: nat) \<and> (of_char c :: nat) \<le> 90)"

definition is_lower :: "char \<Rightarrow> bool" where
  "is_lower c = (97 \<le> (of_char c :: nat) \<and> (of_char c :: nat) \<le> 122)"

definition is_digit :: "char \<Rightarrow> bool" where
  "is_digit c = (48 \<le> (of_char c :: nat) \<and> (of_char c :: nat) \<le> 57)"

definition lower_char :: "char \<Rightarrow> char" where
  "lower_char c = (if is_upper c then char_of ((of_char c :: nat) + 32) else c)"

definition toLowerCase :: "string \<Rightarrow> string" where
  "toLowerCase s = map lower_char s"

text \<open>\<open>s.split(c)\<close> for a one-character separator: always at least one piece.\<close>

fun split_char :: "char \<Rightarrow> string \<Rightarrow> string list" where
  "split_char c [] = [[]]"
| "split_char c (x # xs) =
     (if x = c then [] # split_char c xs
      else (case split_char c xs of [] \<Rightarrow> [[x]] | y # ys \<Rightarrow> (x # y) # ys))"

text \<open>\<open>pieces.join(sep)\<close>.\<close>

fun join :: "string \<Rightarrow> string list \<Rightarrow> string" where
  "join sep [] = []"
| "join sep [x] = x"
| "join sep (x # y # ys) = x @ sep @ join sep (y # ys)"

text \<open>Decimal text of a natural number, as template literals print a count.\<close>

fun digits_of :: "nat \<Rightarrow> nat \<Rightarrow> string" where
  "digits_of 0 n = []"
| "digits_of (Suc fuel) n =
     (if n < 10 then [char_of (48 + n)]
      else digits_of fuel (n div 10) @ [char_of (48 + n mod 10)])"

definition show_nat :: "nat \<Rightarrow> string" where
  "show_nat n = digits_of (Suc n) n"

section \<open>JSON values and the built-in \<open>JSON.parse\<close> and \<open>JSON.stringify\<close>\<close>

text \<open>
  The values the gateway and the reclassifier inspect are JSON values. A number keeps its
  JSON text (such as \<open>0.9\<close>); of a number the code only asks whether it is there and whether
  it is truthy. An object is the list of its members in insertion order, each key once.
  A property that is absent reads as \<open>None\<close> (JavaScript's \<open>undefined\<close>).
\<close>

datatype json =
    JNull
  | JBool bool
  | JNumber string
  | JString string
  | JArray "json list"
  | JObject "(string \<times> json) list"

text \<open>\<open>v.k\<close> on a value that is not \<open>null\<close>: only objects have the properties the code reads.\<close>

fun field :: "json \<Rightarrow> string \<Rightarrow> json option" where
  "field (JObject kvs) k = map_of kvs k"
| "field v k = None"

text \<open>A number is falsy when it is zero: no digit other than 0 before the exponent.\<close>

definition number_is_zero :: "string \<Rightarrow> bool" where
  "number_is_zero n =
     list_all (\<lambda>c. \<not> is_digit c \<or> c = CHR ''0'')
       (takeWhile (\<lambda>c. c \<noteq> CHR ''e'' \<and> c \<noteq> CHR ''E'') n)"

fun truthy :: "json \<Rightarrow> bool" where
  "truthy JNull = False"
| "truthy (JBool b) = b"
| "truthy (JNumber n) = (\<not> number_is_zero n)"
| "truthy (JString s) = (s \<noteq> [])"
| "truthy (JArray xs) = True"
| "truthy (JObject kvs) = True"

fun truthy_opt :: "json option \<Rightarrow> bool" where
  "truthy_opt None = False"
| "truthy_opt (Some v) = truthy v"

subsection \<open>\<open>JSON.stringify\<close>\<close>

definition hex_char :: "nat \<Rightarrow> char" where
  "hex_char n = (if n < 10 then char_of (48 + n) else char_of (87 + n))"

definition escape_json_char :: "char \<Rightarrow> string" where
  "escape_json_char c =
     (if c = dquote then [backslash, dquote]
      else if c = backslash then [backslash, backslash]
      else if c = CHR 0x08 then [backslash, CHR ''b'']
      else if c = CHR 0x0C then [backslash, CHR ''f'']
      else if c = CHR 0x0A then [backslash, CHR ''n'']
      else if c = CHR 0x0D then [backslash, CHR ''r'']
      else if c = CHR 0x09 then [backslash, CHR ''t'']
      else if (of_char c :: nat) < 32
        then [backslash, CHR ''u'', CHR ''0'', CHR ''0'',
              hex_char ((of_char c :: nat) div 16), hex_char ((of_char c :: nat) mod 16)]
      else [c])"

definition quote_json :: "string \<Rightarrow> string" where
  "quote_json s = dquote # concat (map escape_json_char s) @ [dquote]"

fun json_stringify :: "json \<Rightarrow> string"
  and stringify_elements :: "json list \<Rightarrow> string list"
  and stringify_members :: "(string \<times> json) list \<Rightarrow> string list" where
  "json_stringify JNull = ''null''"
| "json_stringify (JBool b) = (if b then ''true'' else ''false'')"
| "json_stringify (JNumber n) = n"
| "json_stringify (JString s) = quote_json s"
| "json_stringify (JArray xs) = ''['' @ join '','' (stringify_elements xs) @ '']''"
| "json_stringify (JObject kvs) = ''{'' @ join '','' (stringify_members kvs) @ ''}''"
| "stringify_elements [] = []"
| "stringify_elements (x # xs) = json_stringify x # stringify_elements xs"
| "stringify_members [] = []"
| "stringify_members ((k, v) # kvs) = (quote_json k @ '':'' @ json_stringify v) # stringify_members kvs"

subsection \<open>\<open>JSON.parse\<close>: a scanner and a stack of open containers\<close>

datatype token =
    TLBrace | TRBrace | TLBracket | TRBracket | TColon | TComma
  | TString string | TNumber string | TWord string

datatype lstate =
    LIdle
  | LStr string
  | LEsc string
  | LUni string "nat list"
  | LNum string
  | LWord string

definition is_json_space :: "char \<Rightarrow> bool" where
  "is_json_space c = (c = CHR '' '' \<or> c = CHR 0x09 \<or> c = CHR 0x0A \<or> c = CHR 0x0D)"

definition is_num_char :: "char \<Rightarrow> bool" where
  "is_num_char c = (is_digit c \<or> c = CHR ''-'' \<or> c = CHR ''+'' \<or> c = CHR ''.'' \<or> c = CHR ''e'' \<or> c = CHR ''E'')"

text \<open>The JSON number grammar: \<open>-? (0 | [1-9][0-9]*) (. [0-9]+)? ([eE] [+-]? [0-9]+)?\<close>.\<close>

definition valid_exponent :: "string \<Rightarrow> bool" where
  "valid_exponent s =
     (case s of
        [] \<Rightarrow> True
      | c # cs \<Rightarrow> (c = CHR ''e'' \<or> c = CHR ''E'') \<and>
          (let ds = (case cs of [] \<Rightarrow> [] | d # r \<Rightarrow> if d = CHR ''+'' \<or> d = CHR ''-'' then r else cs)
           in ds \<noteq> [] \<and> list_all is_digit ds))"

definition valid_fraction :: "string \<Rightarrow> bool" where
  "valid_fraction s =
     (case s of
        [] \<Rightarrow> True
      | c # cs \<Rightarrow>
          if c = CHR ''.'' then takeWhile is_digit cs \<noteq> [] \<and> valid_exponent (dropWhile is_digit cs)
          else valid_exponent s)"

definition valid_number :: "string \<Rightarrow> bool" where
  "valid_number s =
     (let u = (case s of [] \<Rightarrow> [] | c # cs \<Rightarrow> if c = CHR ''-'' then cs else s)
      in case u of
           [] \<Rightarrow> False
         | c # cs \<Rightarrow>
             if c = CHR ''0'' then valid_fraction cs
             else is_digit c \<and> valid_fraction (dropWhile is_digit cs))"

definition escape_char :: "char \<Rightarrow> char option" where
  "escape_char c =
     (if c = dquote then Some dquote
      else if c = backslash then Some backslash
      else if c = CHR ''/'' then Some (CHR ''/'')
      else if c = CHR ''b'' then Some (CHR 0x08)
      else if c = CHR ''f'' then Some (CHR 0x0C)
      else if c = CHR ''n'' then Some (CHR 0x0A)
      else if c = CHR ''r'' then Some (CHR 0x0D)
      else if c = CHR ''t'' then Some (CHR 0x09)
      else None)"

definition hex_digit :: "char \<Rightarrow> nat option" where
  "hex_digit c =
     (let n = (of_char c :: nat) in
      if 48 \<le> n \<and> n \<le> 57 then Some (n - 48)
      else if 97 \<le> n \<and> n \<le> 102 then Some (n - 87)
      else if 65 \<le> n \<and> n \<le> 70 then Some (n - 55)
      else None)"

text \<open>
  The UTF-8 bytes of a code point of the basic plane. An escape of a surrogate code unit
  (\<open>\ud800\<close> to \<open>\udfff\<close>) has no bytes of its own; such texts are outside the model and
  the scanner answers \<open>None\<close> for them.
\<close>

definition utf8 :: "nat \<Rightarrow> string option" where
  "utf8 n =
     (if n < 128 then Some [char_of n]
      else if n < 2048 then Some [char_of (192 + n div 64), char_of (128 + n mod 64)]
      else if 55296 \<le> n \<and> n \<le> 57343 then None
      else Some [char_of (224 + n div 4096), char_of (128 + (n div 64) mod 64), char_of (128 + n mod 64)])"

text \<open>One character met between tokens: the token it makes, if any, and the next state.\<close>

definition lex_idle :: "char \<Rightarrow> (token option \<times> lstate) option" where
  "lex_idle c =
     (if c = CHR ''{'' then Some (Some TLBrace, LIdle)
      else if c = CHR ''}'' then Some (Some TRBrace, LIdle)
      else if c = CHR ''['' then Some (Some TLBracket, LIdle)
      else if c = CHR '']'' then Some (Some TRBracket, LIdle)
      else if c = CHR '':'' then Some (Some TColon, LIdle)
      else if c = CHR '','' then Some (Some TComma, LIdle)
      else if c = dquote then Some (None, LStr [])
      else if is_json_space c then Some (None, LIdle)
      else if c = CHR ''-'' \<or> is_digit c then Some (None, LNum [c])
      else if is_lower c then Some (None, LWord [c])
      else None)"

definition emit :: "token \<Rightarrow> token option \<Rightarrow> token list \<Rightarrow> token list" where
  "emit t next ts = t # (case next of None \<Rightarrow> ts | Some u \<Rightarrow> u # ts)"

fun lex :: "lstate \<Rightarrow> string \<Rightarrow> token list option" where
  "lex LIdle [] = Some []"
| "lex (LStr acc) [] = None"
| "lex (LEsc acc) [] = None"
| "lex (LUni acc hs) [] = None"
| "lex (LNum acc) [] = (if valid_number acc then Some [TNumber acc] else None)"
| "lex (LWord acc) [] = Some [TWord acc]"
| "lex LIdle (c # cs) =
     (case lex_idle c of
        None \<Rightarrow> None
      | Some (None, st) \<Rightarrow> lex st cs
      | Some (Some t, st) \<Rightarrow> map_option ((#) t) (lex st cs))"
| "lex (LStr acc) (c # cs) =
     (if c = dquote then map_option ((#) (TString acc)) (lex LIdle cs)
      else if c = backslash then lex (LEsc acc) cs
      else if (of_char c :: nat) < 32 then None
      else lex (LStr (acc @ [c])) cs)"
| "lex (LEsc acc) (c # cs) =
     (case escape_char c of
        Some e \<Rightarrow> lex (LStr (acc @ [e])) cs
      | None \<Rightarrow> if c = CHR ''u'' then lex (LUni acc []) cs else None)"
| "lex (LUni acc hs) (c # cs) =
     (case hex_digit c of
        None \<Rightarrow> None
      | Some d \<Rightarrow>
          if length hs = 3 then
            (case utf8 (foldl (\<lambda>n h. 16 * n + h) 0 (hs @ [d])) of
               None \<Rightarrow> None
             | Some bytes \<Rightarrow> lex (LStr (acc @ bytes)) cs)
          else lex (LUni acc (hs @ [d])) cs)"
| "lex (LNum acc) (c # cs) =
     (if is_num_char c then lex (LNum (acc @ [c])) cs
      else if valid_number acc then
        (case lex_idle c of
           None \<Rightarrow> None
         | Some (next, st) \<Rightarrow> map_option (emit (TNumber acc) next) (lex st cs))
      else None)"
| "lex (LWord acc) (c # cs) =
     (if is_lower c then lex (LWord (acc @ [c])) cs
      else (case lex_idle c of
              None \<Rightarrow> None
            | Some (next, st) \<Rightarrow> map_option (emit (TWord acc) next) (lex st cs)))"

text \<open>
  The open containers, innermost first: an array with its elements so far, or an object
  with its members so far and the key that waits for its value.
\<close>

datatype frame =
    FArray "json list"
  | FObject "(string \<times> json) list" "string option"

datatype pmode =
    WantValue | WantValueOrClose | WantKeyOrClose | WantKey | WantColon | WantCommaOrClose
  | Finished json

fun push_value :: "json \<Rightarrow> frame list \<Rightarrow> (pmode \<times> frame list) option" where
  "push_value v [] = Some (Finished v, [])"
| "push_value v (FArray acc # st) = Some (WantCommaOrClose, FArray (acc @ [v]) # st)"
| "push_value v (FObject acc (Some k) # st) =
     Some (WantCommaOrClose, FObject (AList.update k v acc) None # st)"
| "push_value v (FObject acc None # st) = None"

fun scalar_of :: "token \<Rightarrow> json option" where
  "scalar_of (TString s) = Some (JString s)"
| "scalar_of (TNumber n) = Some (JNumber n)"
| "scalar_of (TWord w) =
     (if w = ''true'' then Some (JBool True)
      else if w = ''false'' then Some (JBool False)
      else if w = ''null'' then Some JNull
      else None)"
| "scalar_of t = None"

fun close_frame :: "token \<Rightarrow> frame list \<Rightarrow> (pmode \<times> frame list) option" where
  "close_frame TRBracket (FArray acc # st) = push_value (JArray acc) st"
| "close_frame TRBrace (FObject acc None # st) = push_value (JObject acc) st"
| "close_frame t st = None"

fun start_value :: "token \<Rightarrow> frame list \<Rightarrow> (pmode \<times> frame list) option" where
  "start_value TLBracket st = Some (WantValueOrClose, FArray [] # st)"
| "start_value TLBrace st = Some (WantKeyOrClose, FObject [] None # st)"
| "start_value t st = (case scalar_of t of None \<Rightarrow> None | Some v \<Rightarrow> push_value v st)"

fun set_key :: "token \<Rightarrow> frame list \<Rightarrow> (pmode \<times> frame list) option" where
  "set_key (TString k) (FObject acc None # st) = Some (WantColon, FObject acc (Some k) # st)"
| "set_key t st = None"

fun pstep :: "pmode \<times> frame list \<Rightarrow> token \<Rightarrow> (pmode \<times> frame list) option" where
  "pstep (WantValue, st) t = start_value t st"
| "pstep (WantValueOrClose, st) t =
     (if t = TRBracket then close_frame t st else start_value t st)"
| "pstep (WantKeyOrClose, st) t =
     (if t = TRBrace then close_frame t st else set_key t st)"
| "pstep (WantKey, st) t = set_key t st"
| "pstep (WantColon, st) t = (if t = TColon then Some (WantValue, st) else None)"
| "pstep (WantCommaOrClose, st) t =
     (if t = TComma then
        (case st of
           FArray acc # r \<Rightarrow> Some (WantValue, st)
         | FObject acc k # r \<Rightarrow> Some (WantKey, st)
         | [] \<Rightarrow> None)
      else close_frame t st)"
| "pstep (Finished v, st) t = None"

fun psteps :: "pmode \<times> frame list \<Rightarrow> token list \<Rightarrow> (pmode \<times> frame list) option" where
  "psteps s [] = Some s"
| "psteps s (t # ts) = (case pstep s t of None \<Rightarrow> None | Some s' \<Rightarrow> psteps s' ts)"

text \<open>\<open>JSON.parse(text)\<close>: \<open>None\<close> where it throws a \<open>SyntaxError\<close>.\<close>

definition json_parse :: "string \<Rightarrow> json option" where
  "json_parse s =
     (case lex LIdle s of
        None \<Rightarrow> None
      | Some ts \<Rightarrow>
          (case psteps (WantValue, []) ts of
             Some (Finished v, []) \<Rightarrow> Some v
           | _ \<Rightarrow> None))"

section \<open>Remote Execution Gateway (langgraphClient: LangGraphClient)\<close>

text \<open>
  A value thrown by the platform or by the code: a \<open>TypeError\<close> (what \<open>fetch\<close> rejects with
  on a network failure, and what reading a property of \<open>null\<close> throws), any other \<open>Error\<close>,
  the identity SDK's \<open>AccessDeniedInterrupt\<close>, each with its message, or a thrown value
  that is not an \<open>Error\<close>.
\<close>

datatype js_error =
    TypeError string
  | Error string
  | AccessDeniedInterrupt string
  | OtherThrown

text \<open>\<open>/timeout|network|ECONNRESET|ENOTFOUND/i.test(message)\<close>.\<close>

definition transient_pattern :: "string \<Rightarrow> bool" where
  "transient_pattern m =
     (let l = toLowerCase m in
      includes_str l ''timeout'' \<or> includes_str l ''network'' \<or>
      includes_str l ''econnreset'' \<or> includes_str l ''enotfound'')"

text \<open>\<open>err instanceof TypeError || (err instanceof Error && pattern.test(err.message || ''))\<close>.\<close>

fun isTransient :: "js_error \<Rightarrow> bool" where
  "isTransient (TypeError m) = True"
| "isTransient (Error m) = transient_pattern m"
| "isTransient (AccessDeniedInterrupt m) = transient_pattern m"
| "isTransient OtherThrown = False"

subsection \<open>The conversation-thread cache\<close>

text \<open>
  The two module-level \<open>Map\<close>s, as association lists in insertion order:
  \<open>Map.get\<close> is \<open>map_of\<close>, \<open>Map.set\<close> is \<open>AList.update\<close>, \<open>Map.delete\<close> is \<open>AList.delete\<close>.
  Time stamps are milliseconds.
\<close>

record thread_cache =
  conversationThreadMap :: "(string \<times> string) list"
  conversationThreadTimestamps :: "(string \<times> int) list"

record ThreadCreateResponse =
  thread_id :: "string option"
  id_field :: "string option"
  threadId :: "string option"

text \<open>
  What \<open>POST /threads\<close> meets: \<open>fetch\<close> throws; the response is not ok (status and status
  text); reading the body throws; or the body arrives.
\<close>

datatype create_response =
    CreateFetchThrows js_error
  | CreateNotOk string string
  | CreateJsonThrows js_error
  | CreateBody ThreadCreateResponse

text \<open>A string is truthy when it is not empty; an absent one is not.\<close>

fun truthy_str :: "string option \<Rightarrow> bool" where
  "truthy_str None = False"
| "truthy_str (Some s) = (s \<noteq> [])"

text \<open>\<open>body.thread_id || body.id || body.threadId\<close>.\<close>

definition body_thread_id :: "ThreadCreateResponse \<Rightarrow> string option" where
  "body_thread_id body =
     (if truthy_str (thread_id body) then thread_id body
      else if truthy_str (id_field body) then id_field body
      else threadId body)"

text \<open>
  \<open>ensureThread\<close> runs in two parts around its \<open>await fetch\<close>. The first part looks the
  conversation up: on a hit it refreshes the time stamp and returns the cached id; on a
  miss it issues the creation call. The second part runs when the creation call has
  answered, and stores the new binding.
\<close>

definition ensureThread_lookup :: "string \<Rightarrow> int \<Rightarrow> thread_cache \<Rightarrow> string option \<times> thread_cache" where
  "ensureThread_lookup conversationId now c =
     (let cached = map_of (conversationThreadMap c) conversationId in
      if truthy_str cached then
        (cached,
         c\<lparr>conversationThreadTimestamps :=
              AList.update conversationId now (conversationThreadTimestamps c)\<rparr>)
      else (None, c))"

definition ensureThread_store ::
    "string \<Rightarrow> int \<Rightarrow> create_response \<Rightarrow> thread_cache \<Rightarrow> (js_error + string) \<times> thread_cache" where
  "ensureThread_store conversationId now res c =
     (case res of
        CreateFetchThrows e \<Rightarrow> (Inl e, c)
      | CreateNotOk status statusText \<Rightarrow>
          (Inl (Error (''Failed to create thread: '' @ status @ '' '' @ statusText)), c)
      | CreateJsonThrows e \<Rightarrow> (Inl e, c)
      | CreateBody body \<Rightarrow>
          (let tid = body_thread_id body in
           if \<not> truthy_str tid then (Inl (Error ''LangGraph created thread but returned no id''), c)
           else
             (Inr (case tid of Some t \<Rightarrow> t | None \<Rightarrow> []),
              c\<lparr>conversationThreadMap :=
                   AList.update conversationId (case tid of Some t \<Rightarrow> t | None \<Rightarrow> [])
                     (conversationThreadMap c),
                 conversationThreadTimestamps :=
                   AList.update conversationId now (conversationThreadTimestamps c)\<rparr>)))"

text \<open>
  One whole call, with nothing else running in between. The third component counts the
  creation calls issued (0 or 1).
\<close>

definition ensureThread ::
    "string \<Rightarrow> int \<Rightarrow> create_response \<Rightarrow> thread_cache \<Rightarrow> (js_error + string) \<times> thread_cache \<times> nat" where
  "ensureThread conversationId now res c =
     (case ensureThread_lookup conversationId now c of
        (Some tid, c') \<Rightarrow> (Inr tid, c', 0)
      | (None, c') \<Rightarrow>
          (case ensureThread_store conversationId now res c' of (r, c'') \<Rightarrow> (r, c'', 1)))"

text \<open>
  Two calls for the same conversation that overlap: the second call starts while the
  first one waits for its creation call. Each call runs its first part before either
  runs its second part; a call that hits the cache has no second part.
\<close>

definition ensureThread_overlapping ::
    "string \<Rightarrow> int \<Rightarrow> create_response \<Rightarrow> int \<Rightarrow> create_response \<Rightarrow> thread_cache
       \<Rightarrow> (js_error + string) \<times> (js_error + string) \<times> thread_cache \<times> nat" where
  "ensureThread_overlapping conversationId now1 res1 now2 res2 c =
     (case ensureThread_lookup conversationId now1 c of
        (Some tid1, c1) \<Rightarrow>
          (case ensureThread conversationId now2 res2 c1 of
             (r2, c2, n2) \<Rightarrow> (Inr tid1, r2, c2, n2))
      | (None, c1) \<Rightarrow>
          (case ensureThread_lookup conversationId now2 c1 of
             (Some tid2, c2) \<Rightarrow>
               (case ensureThread_store conversationId now1 res1 c2 of
                  (r1, c3) \<Rightarrow> (r1, Inr tid2, c3, 1))
           | (None, c2) \<Rightarrow>
               (case ensureThread_store conversationId now1 res1 c2 of
                  (r1, c3) \<Rightarrow>
                    (case ensureThread_store conversationId now2 res2 c3 of
                       (r2, c4) \<Rightarrow> (r1, r2, c4, 2)))))"

text \<open>
  \<open>evictStaleThreads(ttlMs)\<close>: the loop over the entries of the time-stamp map. An entry
  older than \<open>ttlMs\<close> is deleted, and with it the thread binding when that is truthy.
\<close>

definition evict_entry :: "int \<Rightarrow> int \<Rightarrow> string \<times> int \<Rightarrow> thread_cache \<Rightarrow> thread_cache" where
  "evict_entry ttlMs now e c =
     (case e of (convId, ts) \<Rightarrow>
        if now - ts > ttlMs then
          (let c' = c\<lparr>conversationThreadTimestamps :=
                        AList.delete convId (conversationThreadTimestamps c)\<rparr>
           in if truthy_str (map_of (conversationThreadMap c') convId)
              then c'\<lparr>conversationThreadMap := AList.delete convId (conversationThreadMap c')\<rparr>
              else c')
        else c)"

definition evictStaleThreads :: "int \<Rightarrow> int \<Rightarrow> thread_cache \<Rightarrow> thread_cache" where
  "evictStaleThreads ttlMs now c = fold (evict_entry ttlMs now) (conversationThreadTimestamps c) c"

subsection \<open>Server-sent events (parseSSE)\<close>

datatype sse_event = EvDone | EvJson json | EvText string

text \<open>
  The event handler works on a state \<open>'s\<close>; it may throw after it has changed the state:
  \<open>(Some e, s')\<close> is "threw \<open>e\<close>, leaving \<open>s'\<close>".

  \<open>try { onEvent({json: JSON.parse(payload)}) } catch { onEvent({text: payload}) }\<close>: the
  \<open>catch\<close> receives a failure of \<open>JSON.parse\<close> and also an error thrown by the handler
  on the parsed value; in both cases the payload is handed over again, as text.
\<close>

definition deliver ::
    "(sse_event \<Rightarrow> 's \<Rightarrow> js_error option \<times> 's) \<Rightarrow> string \<Rightarrow> 's \<Rightarrow> js_error option \<times> 's" where
  "deliver onEvent payload s =
     (case json_parse payload of
        None \<Rightarrow> onEvent (EvText payload) s
      | Some j \<Rightarrow>
          (case onEvent (EvJson j) s of
             (None, s') \<Rightarrow> (None, s')
           | (Some e, s') \<Rightarrow> onEvent (EvText payload) s'))"

text \<open>
  The inner \<open>while\<close> loop cuts the buffer at each blank line (\<open>indexOf('\n\n')\<close>, then
  \<open>slice(idx + 2)\<close>). \<open>split_blocks [] buf\<close> gives the completed blocks in order and what
  stays in the buffer.
\<close>

fun split_blocks :: "string \<Rightarrow> string \<Rightarrow> string list \<times> string" where
  "split_blocks acc [] = ([], acc)"
| "split_blocks acc [c] = ([], acc @ [c])"
| "split_blocks acc (c # d # cs) =
     (if c = nl \<and> d = nl then
        (case split_blocks [] cs of (bs, rest) \<Rightarrow> (acc # bs, rest))
      else split_blocks (acc @ [c]) (d # cs))"

text \<open>The payload of a completed block, if it has \<open>data:\<close> lines.\<close>

definition block_payload :: "string \<Rightarrow> string option" where
  "block_payload raw =
     (let block = trim raw in
      if block = [] then None
      else
        (let dataLines = map (\<lambda>line. trim (drop 5 line))
                           (filter (\<lambda>line. starts_with line ''data:'') (split_char nl block))
         in if dataLines = [] then None else Some (join [nl] dataLines)))"

text \<open>
  How a stretch of parsing ends: the \<open>[DONE]\<close> payload was met (\<open>return\<close>), a handler threw
  out of \<open>parseSSE\<close>, or parsing goes on.
\<close>

datatype sse_flow = SseReturn | SseThrow js_error | SseGoOn

fun run_blocks ::
    "(sse_event \<Rightarrow> 's \<Rightarrow> js_error option \<times> 's) \<Rightarrow> string list \<Rightarrow> 's \<Rightarrow> sse_flow \<times> 's" where
  "run_blocks onEvent [] s = (SseGoOn, s)"
| "run_blocks onEvent (b # bs) s =
     (case block_payload b of
        None \<Rightarrow> run_blocks onEvent bs s
      | Some payload \<Rightarrow>
          if payload = ''[DONE]'' then
            (case onEvent EvDone s of
               (None, s') \<Rightarrow> (SseReturn, s')
             | (Some e, s') \<Rightarrow> (SseThrow e, s'))
          else
            (case deliver onEvent payload s of
               (None, s') \<Rightarrow> run_blocks onEvent bs s'
             | (Some e, s') \<Rightarrow> (SseThrow e, s')))"

text \<open>
  The flush after the last read: every non-empty trimmed line of the buffer that begins
  with \<open>data:\<close> is a payload of its own.
\<close>

fun run_tail_lines ::
    "(sse_event \<Rightarrow> 's \<Rightarrow> js_error option \<times> 's) \<Rightarrow> string list \<Rightarrow> 's \<Rightarrow> sse_flow \<times> 's" where
  "run_tail_lines onEvent [] s = (SseGoOn, s)"
| "run_tail_lines onEvent (l # ls) s =
     (if starts_with l ''data:'' then
        (let payload = trim (drop 5 l) in
         if payload = ''[DONE]'' then
           (case onEvent EvDone s of
              (None, s') \<Rightarrow> (SseReturn, s')
            | (Some e, s') \<Rightarrow> (SseThrow e, s'))
         else
           (case deliver onEvent payload s of
              (None, s') \<Rightarrow> run_tail_lines onEvent ls s'
            | (Some e, s') \<Rightarrow> (SseThrow e, s')))
      else run_tail_lines onEvent ls s)"

definition flush_tail ::
    "(sse_event \<Rightarrow> 's \<Rightarrow> js_error option \<times> 's) \<Rightarrow> string \<Rightarrow> 's \<Rightarrow> sse_flow \<times> 's" where
  "flush_tail onEvent buf s =
     (if trim buf \<noteq> [] then
        run_tail_lines onEvent (filter (\<lambda>l. l \<noteq> []) (map trim (split_char nl buf))) s
      else (SseGoOn, s))"

text \<open>
  The outer loop over the reads of the body. \<open>chunks\<close> are the decoded reads in order;
  \<open>readError\<close> is the error of a read that fails after them, if one does. The result is
  the error thrown out of \<open>parseSSE\<close>, if any, and the handler's state.
\<close>

fun read_loop ::
    "(sse_event \<Rightarrow> 's \<Rightarrow> js_error option \<times> 's) \<Rightarrow> string \<Rightarrow> string list \<Rightarrow> js_error option \<Rightarrow> 's
       \<Rightarrow> js_error option \<times> 's" where
  "read_loop onEvent buf [] readError s =
     (case readError of
        Some e \<Rightarrow> (Some e, s)
      | None \<Rightarrow>
          (case flush_tail onEvent buf s of
             (SseThrow e, s') \<Rightarrow> (Some e, s')
           | (flow, s') \<Rightarrow> (None, s')))"
| "read_loop onEvent buf (chunk # chunks) readError s =
     (case split_blocks [] (buf @ chunk) of
        (blocks, rest) \<Rightarrow>
          (case run_blocks onEvent blocks s of
             (SseReturn, s') \<Rightarrow> (None, s')
           | (SseThrow e, s') \<Rightarrow> (Some e, s')
           | (SseGoOn, s') \<Rightarrow> read_loop onEvent rest chunks readError s'))"

definition parseSSE ::
    "(sse_event \<Rightarrow> 's \<Rightarrow> js_error option \<times> 's) \<Rightarrow> string list \<Rightarrow> js_error option \<Rightarrow> 's
       \<Rightarrow> js_error option \<times> 's" where
  "parseSSE onEvent chunks readError s = read_loop onEvent [] chunks readError s"

subsection \<open>Folding the stream (callAgentWithStream)\<close>

text \<open>\<open>typeof c === 'string' ? c : JSON.stringify(c)\<close>.\<close>

fun content_text :: "json \<Rightarrow> string" where
  "content_text (JString s) = s"
| "content_text v = json_stringify v"

text \<open>
  The scan from the newest message to the oldest, on the reversed list. Reading \<open>m.type\<close>
  of a \<open>null\<close> message throws. \<open>Inr None\<close>: no assistant message with content.
\<close>

fun scan_assistant :: "json list \<Rightarrow> js_error + string option" where
  "scan_assistant [] = Inr None"
| "scan_assistant (m # ms) =
     (if m = JNull then Inl (TypeError ''Cannot read properties of null'')
      else if (field m ''type'' = Some (JString ''ai'') \<or> field m ''role'' = Some (JString ''assistant''))
              \<and> truthy_opt (field m ''content'')
        then Inr (Some (case field m ''content'' of Some c \<Rightarrow> content_text c | None \<Rightarrow> []))
      else scan_assistant ms)"

text \<open>The handler's state: \<open>messages\<close> and \<open>lastContent\<close>.\<close>

record fold_state =
  fmessages :: "json list"
  lastContent :: string

fun onEvent :: "sse_event \<Rightarrow> fold_state \<Rightarrow> js_error option \<times> fold_state" where
  "onEvent EvDone s = (None, s)"
| "onEvent (EvText t) s = (None, s\<lparr>lastContent := t\<rparr>)"
| "onEvent (EvJson data) s =
     (if data = JNull then (Some (TypeError ''Cannot read properties of null''), s)
      else
        (case field data ''messages'' of
           Some (JArray ms) \<Rightarrow>
             (let s' = s\<lparr>fmessages := ms\<rparr> in
              case scan_assistant (rev ms) of
                Inl e \<Rightarrow> (Some e, s')
              | Inr (Some c) \<Rightarrow> (None, s'\<lparr>lastContent := c\<rparr>)
              | Inr None \<Rightarrow> (None, s'))
         | _ \<Rightarrow>
             if field data ''event'' = Some (JString ''messages/partial'')
                \<and> truthy_opt (field data ''partial'')
             then (None, s\<lparr>lastContent :=
                     (if lastContent s \<noteq> [] then lastContent s
                      else (case field data ''partial'' of Some v \<Rightarrow> content_text v | None \<Rightarrow> []))\<rparr>)
             else (None, s)))"

record AgentCallResult =
  messages :: "json list"
  content :: string

definition assistant_message :: "string \<Rightarrow> json" where
  "assistant_message c = JObject [(''role'', JString ''assistant''), (''content'', JString c)]"

text \<open>
  What \<open>POST /threads/{id}/runs/stream\<close> meets: \<open>fetch\<close> throws; the response is not ok
  (status, status text and body text); the response has no body; or the body streams its
  reads, possibly ending in a failing read.
\<close>

datatype run_response =
    RunFetchThrows js_error
  | RunNotOk string string string
  | RunNoBody
  | RunStream "string list" "js_error option"

text \<open>
  What one pass through the \<open>while\<close> loop meets, and the sample \<open>Math.random()\<close> returns
  for its back-off (a double in \<open>[0, 1)\<close>).
\<close>

record attempt_env =
  now_ensure :: int
  create :: create_response
  run :: run_response
  now_evict :: int
  random :: rat

text \<open>The body of the \<open>try\<close>: \<open>Inl e\<close> is "threw \<open>e\<close>", received by the \<open>catch\<close> of the loop.\<close>

definition attempt_body ::
    "string \<Rightarrow> attempt_env \<Rightarrow> thread_cache \<Rightarrow> (js_error + AgentCallResult) \<times> thread_cache" where
  "attempt_body conversationId env c =
     (case ensureThread conversationId (now_ensure env) (create env) c of
        (Inl e, c', n) \<Rightarrow> (Inl e, c')
      | (Inr tid, c', n) \<Rightarrow>
          (case run env of
             RunFetchThrows e \<Rightarrow> (Inl e, c')
           | RunNotOk status statusText text \<Rightarrow>
               (Inl (Error (''LangGraph agent error: '' @ status @ '' '' @ statusText @ '' '' @ text)), c')
           | RunNoBody \<Rightarrow> (Inl (Error ''No response body reader from LangGraph''), c')
           | RunStream chunks readError \<Rightarrow>
               (case parseSSE onEvent chunks readError \<lparr>fmessages = [], lastContent = []\<rparr> of
                  (Some e, s) \<Rightarrow> (Inl e, c')
                | (None, s) \<Rightarrow>
                    (case (if lastContent s = [] \<and> fmessages s \<noteq> []
                           then scan_assistant (rev (fmessages s)) else Inr None) of
                       Inl e \<Rightarrow> (Inl e, c')
                     | Inr found \<Rightarrow>
                         (let lc = (case found of Some t \<Rightarrow> t | None \<Rightarrow> lastContent s) in
                          (Inr \<lparr>messages = (if fmessages s \<noteq> [] then fmessages s
                                             else [assistant_message lc]),
                                content = lc\<rparr>,
                           evictStaleThreads (60 * 60 * 1000) (now_evict env) c'))))))"

subsection \<open>Numbers of the back-off: IEEE doubles\<close>

text \<open>
  JavaScript numbers are IEEE 754 doubles and every arithmetic operation rounds its exact
  result to the nearest double, ties to even. A finite double is modelled by the rational
  it denotes; \<open>None\<close> stands for a result that is not finite (an infinity or NaN).

  \<open>round_even q\<close> is the integer nearest to \<open>q\<close>, the even one on a tie.
\<close>

definition round_even :: "rat \<Rightarrow> int" where
  "round_even q =
     (let f = \<lfloor>q\<rfloor>; r = q - of_int f
      in if r < 1 / 2 then f else if 1 / 2 < r then f + 1 else if even f then f else f + 1)"

text \<open>
  For \<open>p > 0\<close>, \<open>ilog2 p\<close> is the binary exponent of \<open>p\<close>, the \<open>k\<close> with
  \<open>2 ^ k \<le> p < 2 ^ (k + 1)\<close>, found from the bit lengths of numerator and denominator.
\<close>

definition ilog2 :: "rat \<Rightarrow> int" where
  "ilog2 p =
     (case quotient_of p of
        (a, b) \<Rightarrow> (let d = bitlen a - bitlen b in if power_int 2 d \<le> p then d else d - 1))"

text \<open>
  The doubles around \<open>p > 0\<close> are the multiples of \<open>2 ^ ulp_exponent p\<close>: 53 significant
  bits, and the fixed spacing \<open>2 ^ -1074\<close> in the subnormal range.
\<close>

definition ulp_exponent :: "rat \<Rightarrow> int" where
  "ulp_exponent p = max (- 1074) (ilog2 p - 52)"

definition round_pos :: "rat \<Rightarrow> rat" where
  "round_pos p =
     of_int (round_even (p / power_int 2 (ulp_exponent p))) * power_int 2 (ulp_exponent p)"

text \<open>Rounding an exact result to a double; a magnitude of \<open>2 ^ 1024\<close> or more is an infinity.\<close>

definition round_double :: "rat \<Rightarrow> rat option" where
  "round_double p =
     (let m = (if p = 0 then 0 else if 0 < p then round_pos p else - round_pos (- p))
      in if \<bar>m\<bar> < 2 ^ 1024 then Some m else None)"


text \<open>\<open>Math.pow(2, n)\<close> for an integer \<open>n\<close>: exact, 0 below the subnormal range, infinite above \<open>2 ^ 1023\<close>.\<close>

definition pow2 :: "int \<Rightarrow> rat option" where
  "pow2 n = (if 1023 < n then None else if n < - 1074 then Some 0 else Some (power_int 2 n))"

text \<open>\<open>Math.floor(Math.random() * 100)\<close>, for the sample \<open>rnd\<close> that \<open>Math.random()\<close> returned.\<close>

definition jitter :: "rat \<Rightarrow> int option" where
  "jitter rnd = map_option floor (round_double (rnd * 100))"

text \<open>
  \<open>baseDelay * Math.pow(2, attempt - 1) + Math.floor(Math.random() * 100)\<close>: the product
  and the sum are rounded; an operand that is not finite makes the result not finite.
\<close>

definition backoff :: "rat \<Rightarrow> nat \<Rightarrow> rat \<Rightarrow> rat option" where
  "backoff baseDelay attempt rnd =
     (case pow2 (int attempt - 1) of
        None \<Rightarrow> None
      | Some pw \<Rightarrow>
          (case round_double (baseDelay * pw) of
             None \<Rightarrow> None
           | Some scaled \<Rightarrow>
               (case jitter rnd of
                  None \<Rightarrow> None
                | Some j \<Rightarrow> round_double (scaled + of_int j))))"

definition apology :: "string \<Rightarrow> string" where
  "apology agentId =
     ''I apologize, but I'' @ [CHR 0x27] @ ''m having trouble connecting to the '' @ agentId @
     '' service right now. Please try again in a moment.''"

definition fallback :: "string \<Rightarrow> string" where
  "fallback agentId =
     ''I apologize, but I'' @ [CHR 0x27] @ ''m having trouble connecting to the '' @ agentId @
     '' service right now.''"

definition message_result :: "string \<Rightarrow> AgentCallResult" where
  "message_result msg = \<lparr>messages = [assistant_message msg], content = msg\<rparr>"

text \<open>
  The retry loop. \<open>env n\<close> is what the pass that starts with \<open>attempt = n\<close> meets. The
  result carries the delays slept, in order, and the cache as the call leaves it.
\<close>

function retry_loop ::
    "string \<Rightarrow> string \<Rightarrow> int \<Rightarrow> rat \<Rightarrow> (nat \<Rightarrow> attempt_env) \<Rightarrow> nat \<Rightarrow> thread_cache
       \<Rightarrow> AgentCallResult \<times> rat option list \<times> thread_cache" where
  "retry_loop agentId conversationId maxRetries baseDelay env attempt c =
     (if int attempt \<le> maxRetries then
        (case attempt_body conversationId (env attempt) c of
           (Inr r, c') \<Rightarrow> (r, [], c')
         | (Inl err, c') \<Rightarrow>
             if \<not> isTransient err \<or> int (Suc attempt) > maxRetries
             then (message_result (apology agentId), [], c')
             else
               (case retry_loop agentId conversationId maxRetries baseDelay env (Suc attempt) c' of
                  (r, delays, c'') \<Rightarrow>
                    (r, backoff baseDelay (Suc attempt) (random (env attempt)) # delays, c'')))
      else (message_result (fallback agentId), [], c))"
  by pat_completeness auto
termination
  by (relation "measure (\<lambda>(agentId, conversationId, maxRetries, baseDelay, env, attempt, c).
        nat (maxRetries + 1 - int attempt))") auto

text \<open>The client's fields and the options of one call.\<close>

record LangGraphClient =
  maxRetries :: int
  retryDelay :: rat

record AgentCallOptions =
  agentId :: string
  message :: string
  userId :: string
  conversationId :: string

definition callAgentWithStream ::
    "LangGraphClient \<Rightarrow> AgentCallOptions \<Rightarrow> (nat \<Rightarrow> attempt_env) \<Rightarrow> thread_cache
       \<Rightarrow> AgentCallResult \<times> rat option list \<times> thread_cache" where
  "callAgentWithStream client opts env c =
     retry_loop (agentId opts) (conversationId opts) (maxRetries client) (retryDelay client) env 0 c"


section \<open>Backchannel Authorization Coordinator\<close>

subsection \<open>The authorization state\<close>

datatype auth_status = Idle | Requested | Pending | Approved | Denied

record AuthorizationState =
  status :: auth_status
  auth_message :: "string option"

subsection \<open>The standards-based flow (ciba-standard: initiate, then poll)\<close>

text \<open>
  What the authorize endpoint meets: \<open>fetch\<close> (or reading the body) throws an error with
  a message; the response is not ok, with its status and body text; or the response is
  ok with \<open>auth_req_id\<close>, \<open>expires_in\<close> and \<open>interval\<close> (\<open>None\<close> where absent).
\<close>

datatype initiate_response =
    InitFetchThrows string
  | InitNotOk string string
  | InitOk string "int option" "int option"






text \<open>
  The provider side of one authorization: whether the issuer, client id and client secret
  are configured, the answer of the authorize endpoint, and the answers of the token
  endpoint by attempt.
\<close>

record provider =
  configured :: bool
  initiate :: initiate_response
  respond :: "nat \<Rightarrow> poll_response"



subsection \<open>The wrapper of a protected action (ciba-langchain: withCIBAAuthorization)\<close>



text \<open>\<open>String(v)\<close>, as a template literal prints a value.\<close>

fun to_display :: "json \<Rightarrow> string" and display_elements :: "json list \<Rightarrow> string list" where
  "to_display JNull = ''null''"
| "to_display (JBool b) = (if b then ''true'' else ''false'')"
| "to_display (JNumber n) = n"
| "to_display (JString s) = s"
| "to_display (JArray xs) = join '','' (display_elements xs)"
| "to_display (JObject kvs) = ''[object Object]''"
| "display_elements [] = []"
| "display_elements (x # xs) = (if x = JNull then [] else to_display x) # display_elements xs"

text \<open>The characters \<open>replace(/[^a-zA-Z0-9\s+\-_.,:#]/g, '')\<close> keeps.\<close>

definition allowed_char :: "char \<Rightarrow> bool" where
  "allowed_char c =
     (is_lower c \<or> is_upper c \<or> is_digit c \<or> is_space c \<or>
      c \<in> set ''+-_.,:#'')"

definition clean :: "string \<Rightarrow> string" where
  "clean s = filter allowed_char s"

text \<open>
  The \<open>try\<close> block of the cart branch, on the parsed cart summary: \<open>Inl\<close> when it throws
  (a property of \<open>null\<close> is read, or \<open>summary\<close> is not a string and has no \<open>replace\<close>).
\<close>

definition cart_message :: "json \<Rightarrow> unit + string" where
  "cart_message parsed =
     (if parsed = JNull then Inl ()
      else if truthy_opt (field parsed ''totalValue'') \<and> truthy_opt (field parsed ''items'') then
        Inr (''Do you want to checkout cart with '' @
             (case field parsed ''items'' of
                Some (JArray xs) \<Rightarrow> show_nat (length xs)
              | _ \<Rightarrow> ''multiple'') @
             '' items for '' @
             (case field parsed ''totalValue'' of Some v \<Rightarrow> to_display v | None \<Rightarrow> []))
      else if truthy_opt (field parsed ''summary'') then
        (case field parsed ''summary'' of
           Some (JString s) \<Rightarrow> Inr (''Do you want to checkout cart: '' @ clean s)
         | _ \<Rightarrow> Inl ())
      else Inr ''Do you want to checkout your cart'')"

text \<open>
  \<open>createBindingMessage(params)\<close>. Reading \<open>params.product\<close> of \<open>null\<close> throws. The
  \<open>catch\<close> of the cart branch cleans the raw cart summary, which throws out of the
  function when the summary is not a string.
\<close>

definition createBindingMessage :: "json \<Rightarrow> js_error + string" where
  "createBindingMessage params =
     (if params = JNull then Inl (TypeError ''Cannot read properties of null'')
      else if truthy_opt (field params ''product'') \<and> truthy_opt (field params ''qty'') then
        Inr (''Do you want to buy '' @
             (case field params ''qty'' of Some q \<Rightarrow> to_display q | None \<Rightarrow> []) @ '' '' @
             (case field params ''product'' of Some p \<Rightarrow> to_display p | None \<Rightarrow> []))
      else if truthy_opt (field params ''cartSummary'') then
        (case (case field params ''cartSummary'' of
                 Some (JString s) \<Rightarrow>
                   (case json_parse s of None \<Rightarrow> Inl () | Some parsed \<Rightarrow> cart_message parsed)
               | Some v \<Rightarrow> cart_message v
               | None \<Rightarrow> Inl ()) of
           Inr m \<Rightarrow> Inr m
         | Inl u \<Rightarrow>
             (case field params ''cartSummary'' of
                Some (JString s) \<Rightarrow> Inr (''Do you want to checkout cart: '' @ clean s)
              | _ \<Rightarrow> Inl (TypeError ''params.cartSummary.replace is not a function'')))
      else Inr ''Do you want to proceed with this purchase'')"

text \<open>\<open>error.message\<close> of a caught value.\<close>

fun error_message :: "js_error \<Rightarrow> string" where
  "error_message (TypeError m) = m"
| "error_message (Error m) = m"
| "error_message (AccessDeniedInterrupt m) = m"
| "error_message OtherThrown = ''undefined''"



subsection \<open>The fallback wrapper (auth0-ai-langchain-fallback: withAsyncAuthorization)\<close>


subsection \<open>The SDK-driven flow (auth0-ai-langchain: the callbacks and the state accessors)\<close>

text \<open>
  The status messages the module keeps for streaming consumers, each named by the phase
  that wrote it (the phase fixes its text and its 60 second expiry).
\<close>

datatype phase = PhaseSent | PhaseApproved | PhaseProcessing

record auth_module =
  authorizationState :: AuthorizationState
  authorizationStatusMessages :: "phase list"
  isToolExecutionInProgress :: bool

definition clearAuthorizationStatusMessages :: "auth_module \<Rightarrow> auth_module" where
  "clearAuthorizationStatusMessages m = m\<lparr>authorizationStatusMessages := []\<rparr>"

definition updateAuthorizationStatusMessage :: "phase \<Rightarrow> auth_module \<Rightarrow> auth_module" where
  "updateAuthorizationStatusMessage ph m =
     (let m1 = clearAuthorizationStatusMessages m;
          m2 = (if ph = PhaseApproved then m1\<lparr>isToolExecutionInProgress := True\<rparr> else m1)
      in m2\<lparr>authorizationStatusMessages := authorizationStatusMessages m2 @ [ph]\<rparr>)"

definition clearAuthorizationOnToolCompletion :: "auth_module \<Rightarrow> auth_module" where
  "clearAuthorizationOnToolCompletion m =
     (if isToolExecutionInProgress m
      then (clearAuthorizationStatusMessages m)\<lparr>isToolExecutionInProgress := False\<rparr>
      else m)"

definition set_status :: "auth_status \<Rightarrow> auth_module \<Rightarrow> auth_module" where
  "set_status s m = m\<lparr>authorizationState := (authorizationState m)\<lparr>status := s\<rparr>\<rparr>"

text \<open>
  \<open>getAuthorizationState()\<close>. \<open>shop\<close> is the status the checkout tool reports for its own
  authorization (\<open>None\<close> when the tool is not available or reports no state).
\<close>

definition getAuthorizationState :: "auth_status option \<Rightarrow> auth_module \<Rightarrow> AuthorizationState \<times> auth_module" where
  "getAuthorizationState shop m =
     (let m' = (if shop = Some Approved \<and> status (authorizationState m) = Requested
                then set_status Approved m else m)
      in (authorizationState m', m'))"

definition resetAuthorizationState :: "auth_module \<Rightarrow> auth_module" where
  "resetAuthorizationState m = m\<lparr>authorizationState := \<lparr>status = Idle, auth_message = None\<rparr>\<rparr>"

definition notifyShopAuthReset :: "auth_module \<Rightarrow> auth_module" where
  "notifyShopAuthReset m = m\<lparr>authorizationState := \<lparr>status = Idle, auth_message = None\<rparr>\<rparr>"

text \<open>
  The \<open>bindingMessage\<close> callback derives the message from the parameters as
  \<open>createBindingMessage\<close> does, stores it with status \<open>requested\<close>, and returns it.
\<close>

definition bindingMessage :: "json \<Rightarrow> auth_module \<Rightarrow> (js_error + string) \<times> auth_module" where
  "bindingMessage params m =
     (case createBindingMessage params of
        Inl e \<Rightarrow> (Inl e, m)
      | Inr msg \<Rightarrow>
          (Inr msg, m\<lparr>authorizationState := \<lparr>status = Requested, auth_message = Some msg\<rparr>\<rparr>))"

text \<open>How the polling promise handed to \<open>onAuthorizationRequest\<close> settles.\<close>

datatype settled = ResolvedTruthy | ResolvedFalsy | Rejected js_error

text \<open>\<open>onAuthorizationRequest\<close> up to its \<open>await poll\<close>, and from there on.\<close>

definition onAuthorizationRequest_begin :: "auth_module \<Rightarrow> auth_module" where
  "onAuthorizationRequest_begin m = set_status Pending (updateAuthorizationStatusMessage PhaseSent m)"

definition onAuthorizationRequest_settle :: "settled \<Rightarrow> auth_module \<Rightarrow> js_error option \<times> auth_module" where
  "onAuthorizationRequest_settle r m =
     (case r of
        ResolvedTruthy \<Rightarrow> (None, updateAuthorizationStatusMessage PhaseApproved (set_status Approved m))
      | ResolvedFalsy \<Rightarrow> (None, clearAuthorizationStatusMessages (set_status Denied m))
      | Rejected e \<Rightarrow> (Some e, clearAuthorizationStatusMessages (set_status Denied m)))"


definition onUnauthorized :: "js_error \<Rightarrow> auth_module \<Rightarrow> string \<times> auth_module" where
  "onUnauthorized e m =
     (let msg = (case e of
                   AccessDeniedInterrupt x \<Rightarrow> ''The user has denied the request''
                 | _ \<Rightarrow> error_message e)
      in (msg, (clearAuthorizationStatusMessages m)
                 \<lparr>authorizationState := \<lparr>status = Denied, auth_message = Some msg\<rparr>\<rparr>))"

text \<open>The operations that touch the authorization state, and the state each leaves.\<close>

datatype auth_op =
    OpGetState "auth_status option"
  | OpReset
  | OpNotifyShopReset
  | OpBindingMessage json
  | OpRequestBegin
  | OpRequestSettle settled
  | OpUnauthorized js_error

fun apply_op :: "auth_op \<Rightarrow> auth_module \<Rightarrow> auth_module" where
  "apply_op (OpGetState shop) m = snd (getAuthorizationState shop m)"
| "apply_op OpReset m = resetAuthorizationState m"
| "apply_op OpNotifyShopReset m = notifyShopAuthReset m"
| "apply_op (OpBindingMessage params) m = snd (bindingMessage params m)"
| "apply_op OpRequestBegin m = onAuthorizationRequest_begin m"
| "apply_op (OpRequestSettle r) m = snd (onAuthorizationRequest_settle r m)"
| "apply_op (OpUnauthorized e) m = snd (onUnauthorized e m)"

text \<open>
  The chain of the specification, \<open>idle \<rightarrow> requested \<rightarrow> pending \<rightarrow> {approved | denied} \<rightarrow> idle\<close>,
  as the set of its single steps.
\<close>

fun chain_next :: "auth_status \<Rightarrow> auth_status \<Rightarrow> bool" where
  "chain_next Idle Requested = True"
| "chain_next Requested Pending = True"
| "chain_next Pending Approved = True"
| "chain_next Pending Denied = True"
| "chain_next Approved Idle = True"
| "chain_next Denied Idle = True"
| "chain_next s s' = False"

section \<open>Example inputs\<close>

text \<open>The stream body of the gateway example: one message event, then the terminator.\<close>

definition sse_example :: string where
  \<open>sse_example =
     ''data: {"messages":[{"role":"assistant","content":"hi"}]}'' @ [nl, nl] @
     ''data: [DONE]'' @ [nl, nl]\<close>

definition hour_ms :: int where "hour_ms = 60 * 60 * 1000"

definition demo_client :: LangGraphClient where
  "demo_client = \<lparr>maxRetries = 3, retryDelay = 1000\<rparr>"

definition demo_opts :: AgentCallOptions where
  "demo_opts = \<lparr>agentId = ''catalog'', message = ''hello'', userId = ''u1'', conversationId = ''c1''\<rparr>"

definition empty_cache :: thread_cache where
  "empty_cache = \<lparr>conversationThreadMap = [], conversationThreadTimestamps = []\<rparr>"

text \<open>A binding last used at time 0.\<close>

definition stale_cache :: thread_cache where
  "stale_cache = \<lparr>conversationThreadMap = [(''c1'', ''t-old'')], conversationThreadTimestamps = [(''c1'', 0)]\<rparr>"

definition new_thread :: "string \<Rightarrow> create_response" where
  "new_thread t = CreateBody \<lparr>thread_id = Some t, id_field = None, threadId = None\<rparr>"

text \<open>Every pass starts two hours after time 0 and receives the example stream.\<close>

definition example_env :: "nat \<Rightarrow> attempt_env" where
  "example_env n = \<lparr>now_ensure = 2 * hour_ms, create = new_thread ''t-new'',
      run = RunStream [sse_example] None, now_evict = 2 * hour_ms + 5, random = 1 / 2\<rparr>"




definition buy_params :: json where
  "buy_params = JObject [(''product'', JString ''apple''), (''qty'', JNumber ''2'')]"

definition idle_state :: AuthorizationState where
  "idle_state = \<lparr>status = Idle, auth_message = None\<rparr>"

definition idle_module :: auth_module where
  "idle_module = \<lparr>authorizationState = idle_state, authorizationStatusMessages = [],
                    isToolExecutionInProgress = False\<rparr>"


section \<open>Claims about the polling loop\<close>

text \<open>
  C2 (the code departs from the claim). The claim: an attempt answered \<open>expired_token\<close> ends
  the polling at that attempt with the "authorization request expired" error. In the code
  that error is thrown inside the \<open>try\<close> whose \<open>catch\<close> only re-throws messages that
  include \<open>CIBA polling error\<close>, so it is dropped: with three attempts all answered
  \<open>expired_token\<close> the loop polls three times and fails with the "failed after maximum
  attempts" error, and an \<open>expired_token\<close> answer before the last attempt is followed by
  another poll whose tokens are returned.
\<close>

theorem pollCIBAResult_expired_token_is_retried:
  "pollCIBAResult (\<lambda>n. ResponseError (Some ''expired_token'') None) 3
     = (Thrown polling_failed_message, 3)
   \<and> polling_failed_message \<noteq> expired_message
   \<and> pollCIBAResult (\<lambda>n. if n = 1 then ResponseError (Some ''expired_token'') None
                              else ResponseOk t) 2
     = (Tokens t, 2)"
  by (simp add: pollCIBAResult_def poll_try_def poll_catch_def expired_message_def
      polling_failed_message_def)
section \<open>Facts about the thread cache\<close>

lemma evict_entry_keeps_absent_thread:
  "map_of (conversationThreadMap c) k = None \<Longrightarrow>
   map_of (conversationThreadMap (evict_entry ttl now e c)) k = None"
  by (cases e) (simp add: evict_entry_def Let_def delete_conv')

lemma evict_entry_keeps_absent_stamp:
  "map_of (conversationThreadTimestamps c) k = None \<Longrightarrow>
   map_of (conversationThreadTimestamps (evict_entry ttl now e c)) k = None"
  by (cases e) (simp add: evict_entry_def Let_def delete_conv')

lemma evict_entry_thread_cases:
  "map_of (conversationThreadMap c) k = None \<or> map_of (conversationThreadMap c) k = Some tid \<Longrightarrow>
   map_of (conversationThreadMap (evict_entry ttl now e c)) k = None
   \<or> map_of (conversationThreadMap (evict_entry ttl now e c)) k = Some tid"
  by (cases e) (auto simp add: evict_entry_def Let_def delete_conv')

lemma evict_entry_stale:
  "now - ts > ttl \<Longrightarrow> tid \<noteq> [] \<Longrightarrow>
   map_of (conversationThreadMap c) k = None \<or> map_of (conversationThreadMap c) k = Some tid \<Longrightarrow>
   map_of (conversationThreadMap (evict_entry ttl now (k, ts) c)) k = None
   \<and> map_of (conversationThreadTimestamps (evict_entry ttl now (k, ts) c)) k = None"
  by (auto simp add: evict_entry_def Let_def delete_conv')

lemma fold_evict_keeps_absent:
  "map_of (conversationThreadMap c) k = None \<Longrightarrow> map_of (conversationThreadTimestamps c) k = None \<Longrightarrow>
   map_of (conversationThreadMap (fold (evict_entry ttl now) es c)) k = None
   \<and> map_of (conversationThreadTimestamps (fold (evict_entry ttl now) es c)) k = None"
  by (induction es arbitrary: c)
     (simp_all add: evict_entry_keeps_absent_thread evict_entry_keeps_absent_stamp)

text \<open>
  Once the loop reaches a stale entry of a conversation, the conversation is gone from both
  maps, and later entries never bring it back.
\<close>

lemma fold_evict_stale:
  "(k, ts) \<in> set es \<Longrightarrow> now - ts > ttl \<Longrightarrow> tid \<noteq> [] \<Longrightarrow>
   map_of (conversationThreadMap c) k = None \<or> map_of (conversationThreadMap c) k = Some tid \<Longrightarrow>
   map_of (conversationThreadMap (fold (evict_entry ttl now) es c)) k = None
   \<and> map_of (conversationThreadTimestamps (fold (evict_entry ttl now) es c)) k = None"
proof (induction es arbitrary: c)
  case Nil
  then show ?case by simp
next
  case (Cons e es)
  show ?case
  proof (cases "e = (k, ts)")
    case True
    have "map_of (conversationThreadMap (evict_entry ttl now (k, ts) c)) k = None
      \<and> map_of (conversationThreadTimestamps (evict_entry ttl now (k, ts) c)) k = None"
      using evict_entry_stale[OF Cons.prems(2) Cons.prems(3) Cons.prems(4)] .
    then show ?thesis using True fold_evict_keeps_absent by simp
  next
    case False
    then have mem: "(k, ts) \<in> set es" using Cons.prems(1) by simp
    have "map_of (conversationThreadMap (evict_entry ttl now e c)) k = None
      \<or> map_of (conversationThreadMap (evict_entry ttl now e c)) k = Some tid"
      using evict_entry_thread_cases[OF Cons.prems(4)] .
    from Cons.IH[OF mem Cons.prems(2) Cons.prems(3) this] show ?thesis by simp
  qed
qed

lemma evictStaleThreads_removes_stale:
  assumes "map_of (conversationThreadMap c) k = Some tid" and "tid \<noteq> []"
    and "map_of (conversationThreadTimestamps c) k = Some ts" and "now - ts > ttl"
  shows "map_of (conversationThreadMap (evictStaleThreads ttl now c)) k = None
   \<and> map_of (conversationThreadTimestamps (evictStaleThreads ttl now c)) k = None"
proof -
  have "(k, ts) \<in> set (conversationThreadTimestamps c)" using assms(3) by (rule map_of_SomeD)
  then show ?thesis unfolding evictStaleThreads_def
    using fold_evict_stale[OF _ assms(4) assms(2)] assms(1) by blast
qed

lemma ensureThread_hit:
  "map_of (conversationThreadMap c) k = Some tid \<Longrightarrow> tid \<noteq> [] \<Longrightarrow>
   ensureThread k now res c =
     (Inr tid, c\<lparr>conversationThreadTimestamps := AList.update k now (conversationThreadTimestamps c)\<rparr>, 0)"
  by (simp add: ensureThread_def ensureThread_lookup_def)

lemma ensureThread_miss_creates:
  "map_of (conversationThreadMap c) k = None \<Longrightarrow> new \<noteq> [] \<Longrightarrow>
   ensureThread k now (CreateBody \<lparr>thread_id = Some new, id_field = i, threadId = t\<rparr>) c =
     (Inr new,
      c\<lparr>conversationThreadMap := AList.update k new (conversationThreadMap c),
        conversationThreadTimestamps := AList.update k now (conversationThreadTimestamps c)\<rparr>, 1)"
  by (simp add: ensureThread_def ensureThread_lookup_def ensureThread_store_def body_thread_id_def)

lemma ensureThread_success_binds:
  assumes "ensureThread k now res c = (Inr tid, c1, n)"
  shows "map_of (conversationThreadMap c1) k = Some tid \<and> tid \<noteq> []"
proof (cases "truthy_str (map_of (conversationThreadMap c) k)")
  case True
  then obtain t where t: "map_of (conversationThreadMap c) k = Some t" "t \<noteq> []"
    by (cases "map_of (conversationThreadMap c) k") auto
  with assms show ?thesis by (auto simp add: ensureThread_hit)
next
  case False
  with assms show ?thesis
    by (auto simp add: ensureThread_def ensureThread_lookup_def ensureThread_store_def Let_def
        update_conv' split: create_response.splits if_splits option.splits)
qed

section \<open>Claims about the thread cache\<close>

text \<open>
  C4, as stated, fails: \<open>ensureThread\<close> never looks at the time stamp. A binding last used
  two hours ago, with a TTL of one hour, is returned from the cache and no creation call
  is issued; the call refreshes the time stamp, so the sweep at the end of the same gateway
  call keeps the binding.
\<close>

theorem ensureThread_reuses_stale_binding:
  "ensureThread ''c1'' (2 * hour_ms) (new_thread ''t-new'') stale_cache
     = (Inr ''t-old'',
        \<lparr>conversationThreadMap = [(''c1'', ''t-old'')],
         conversationThreadTimestamps = [(''c1'', 2 * hour_ms)]\<rparr>, 0)
   \<and> 2 * hour_ms - 0 > hour_ms
   \<and> snd (snd (callAgentWithStream demo_client demo_opts example_env stale_cache))
     = \<lparr>conversationThreadMap = [(''c1'', ''t-old'')],
        conversationThreadTimestamps = [(''c1'', 2 * hour_ms)]\<rparr>"
  by code_simp

text \<open>
  C4, amended. \<open>ensureThread\<close> returns the cached thread id whenever the conversation has a
  binding, whatever its age, and refreshes its time stamp. A sweep (\<open>evictStaleThreads\<close>)
  that runs while the binding's time stamp is older than the TTL removes the binding from
  both maps, and an \<open>ensureThread\<close> after that sweep issues one creation call and returns
  the new thread id.
\<close>

theorem stale_binding_evicted_by_sweep:
  assumes "map_of (conversationThreadMap c) conv = Some tid" and "tid \<noteq> []"
    and "map_of (conversationThreadTimestamps c) conv = Some ts" and "now - ts > ttl"
    and "new \<noteq> []"
  shows "ensureThread conv nowA res c
           = (Inr tid, c\<lparr>conversationThreadTimestamps :=
                            AList.update conv nowA (conversationThreadTimestamps c)\<rparr>, 0)
       \<and> map_of (conversationThreadMap (evictStaleThreads ttl now c)) conv = None
       \<and> map_of (conversationThreadTimestamps (evictStaleThreads ttl now c)) conv = None
       \<and> fst (ensureThread conv nowB (CreateBody \<lparr>thread_id = Some new, id_field = i, threadId = t\<rparr>)
                (evictStaleThreads ttl now c)) = Inr new
       \<and> snd (snd (ensureThread conv nowB (CreateBody \<lparr>thread_id = Some new, id_field = i, threadId = t\<rparr>)
                (evictStaleThreads ttl now c))) = 1"
proof -
  have gone: "map_of (conversationThreadMap (evictStaleThreads ttl now c)) conv = None
       \<and> map_of (conversationThreadTimestamps (evictStaleThreads ttl now c)) conv = None"
    using evictStaleThreads_removes_stale[OF assms(1-4)] .
  then have "map_of (conversationThreadMap (evictStaleThreads ttl now c)) conv = None" by simp
  from ensureThread_miss_creates[OF this assms(5)] gone ensureThread_hit[OF assms(1,2)]
  show ?thesis by simp
qed

theorem stale_binding_evicted_by_sweep_witness:
  "ensureThread ''c1'' 7 (new_thread ''t-new'') stale_cache
     = (Inr ''t-old'', stale_cache\<lparr>conversationThreadTimestamps := [(''c1'', 7)]\<rparr>, 0)
   \<and> evictStaleThreads hour_ms (2 * hour_ms) stale_cache = empty_cache
   \<and> fst (ensureThread ''c1'' 9 (new_thread ''t-new'') (evictStaleThreads hour_ms (2 * hour_ms) stale_cache))
       = Inr ''t-new''"
proof -
  have h1: "map_of (conversationThreadMap stale_cache) ''c1'' = Some ''t-old''"
    by (simp add: stale_cache_def)
  have h2: "''t-old'' \<noteq> []" by simp
  have h3: "map_of (conversationThreadTimestamps stale_cache) ''c1'' = Some 0"
    by (simp add: stale_cache_def)
  have h4: "2 * hour_ms - 0 > hour_ms" by (simp add: hour_ms_def)
  have h5: "''t-new'' \<noteq> []" by simp
  have ev: "evictStaleThreads hour_ms (2 * hour_ms) stale_cache = empty_cache"
    by (simp add: evictStaleThreads_def evict_entry_def stale_cache_def empty_cache_def hour_ms_def)
  from stale_binding_evicted_by_sweep[OF h1 h2 h3 h4 h5,
      where nowA = 7 and res = "new_thread ''t-new''" and nowB = 9 and i = None and t = None]
  show ?thesis using ev by (simp add: new_thread_def stale_cache_def)
qed

text \<open>
  C8, as stated, fails: nothing makes the look-up and the creation one step. When a second
  call for the same conversation starts while the first waits for its creation call, both
  miss the cache, two creation calls are issued, and the calls return different thread ids
  (the cache keeps the id that was stored last).
\<close>

theorem overlapping_ensureThread_creates_twice:
  "ensureThread_overlapping ''c1'' 1 (new_thread ''t-1'') 2 (new_thread ''t-2'') empty_cache
     = (Inr ''t-1'', Inr ''t-2'',
        \<lparr>conversationThreadMap = [(''c1'', ''t-2'')], conversationThreadTimestamps = [(''c1'', 2)]\<rparr>, 2)"
  by code_simp

text \<open>
  C8, amended. Two \<open>ensureThread\<close> calls for the same conversation, the second starting
  after the first has returned a thread id and while the binding the first left is still
  in the cache (no sweep has evicted it and no other call has replaced it in between),
  resolve to the same thread id, and the second issues no creation call, so at most one
  is issued. Two calls that overlap on a conversation without a binding (the second
  starts while the first waits for its creation call) each issue a creation call and
  each returns the id of its own creation response.
\<close>

theorem sequential_ensureThread_same_thread:
  "(ensureThread conv nowA resA c = (Inr tid, cA, nA)
      \<and> map_of (conversationThreadMap cB) conv = map_of (conversationThreadMap cA) conv
    \<longrightarrow> ensureThread conv nowB resB cB
           = (Inr tid, cB\<lparr>conversationThreadTimestamps :=
                             AList.update conv nowB (conversationThreadTimestamps cB)\<rparr>, 0)
        \<and> nA \<le> 1)
   \<and> (\<not> truthy_str (map_of (conversationThreadMap c) conv) \<and> tA \<noteq> [] \<and> tB \<noteq> []
    \<longrightarrow> (case ensureThread_overlapping conv nowA
                  (CreateBody \<lparr>thread_id = Some tA, id_field = iA, threadId = jA\<rparr>) nowB
                  (CreateBody \<lparr>thread_id = Some tB, id_field = iB, threadId = jB\<rparr>) c of
           (rA, rB, c', n) \<Rightarrow> rA = Inr tA \<and> rB = Inr tB \<and> n = 2
              \<and> map_of (conversationThreadMap c') conv = Some tB))"
proof -
  have seq: "ensureThread conv nowB resB cB
           = (Inr tid, cB\<lparr>conversationThreadTimestamps :=
                             AList.update conv nowB (conversationThreadTimestamps cB)\<rparr>, 0)
        \<and> nA \<le> 1"
    if first: "ensureThread conv nowA resA c = (Inr tid, cA, nA)"
      and same: "map_of (conversationThreadMap cB) conv = map_of (conversationThreadMap cA) conv"
  proof -
    have "map_of (conversationThreadMap cA) conv = Some tid \<and> tid \<noteq> []"
      using ensureThread_success_binds[OF first] .
    with same have "map_of (conversationThreadMap cB) conv = Some tid" "tid \<noteq> []" by simp_all
    then have second: "ensureThread conv nowB resB cB
           = (Inr tid, cB\<lparr>conversationThreadTimestamps :=
                             AList.update conv nowB (conversationThreadTimestamps cB)\<rparr>, 0)"
      by (rule ensureThread_hit)
    have "nA \<le> 1" using first
      by (auto simp add: ensureThread_def split: prod.splits option.splits)
    with second show ?thesis by simp
  qed
  have ovl: "(case ensureThread_overlapping conv nowA
                  (CreateBody \<lparr>thread_id = Some tA, id_field = iA, threadId = jA\<rparr>) nowB
                  (CreateBody \<lparr>thread_id = Some tB, id_field = iB, threadId = jB\<rparr>) c of
           (rA, rB, c', n) \<Rightarrow> rA = Inr tA \<and> rB = Inr tB \<and> n = 2
              \<and> map_of (conversationThreadMap c') conv = Some tB)"
    if "\<not> truthy_str (map_of (conversationThreadMap c) conv)" and "tA \<noteq> []" and "tB \<noteq> []"
    using that
    by (simp add: ensureThread_overlapping_def ensureThread_lookup_def ensureThread_store_def
        body_thread_id_def update_conv')
  show ?thesis
  proof (intro conjI impI)
    assume h: "ensureThread conv nowA resA c = (Inr tid, cA, nA)
      \<and> map_of (conversationThreadMap cB) conv = map_of (conversationThreadMap cA) conv"
    from seq[OF conjunct1[OF h] conjunct2[OF h]]
    show "ensureThread conv nowB resB cB
           = (Inr tid, cB\<lparr>conversationThreadTimestamps :=
                             AList.update conv nowB (conversationThreadTimestamps cB)\<rparr>, 0)"
      and "nA \<le> 1"
      by simp_all
  next
    assume h: "\<not> truthy_str (map_of (conversationThreadMap c) conv) \<and> tA \<noteq> [] \<and> tB \<noteq> []"
    then have "\<not> truthy_str (map_of (conversationThreadMap c) conv)" "tA \<noteq> []" "tB \<noteq> []"
      by simp_all
    then show "(case ensureThread_overlapping conv nowA
                  (CreateBody \<lparr>thread_id = Some tA, id_field = iA, threadId = jA\<rparr>) nowB
                  (CreateBody \<lparr>thread_id = Some tB, id_field = iB, threadId = jB\<rparr>) c of
           (rA, rB, c', n) \<Rightarrow> rA = Inr tA \<and> rB = Inr tB \<and> n = 2
              \<and> map_of (conversationThreadMap c') conv = Some tB)"
      by (rule ovl)
  qed
qed

theorem sequential_ensureThread_same_thread_witness:
  "ensureThread ''c1'' 1 (new_thread ''t-1'') empty_cache
     = (Inr ''t-1'', \<lparr>conversationThreadMap = [(''c1'', ''t-1'')],
                      conversationThreadTimestamps = [(''c1'', 1)]\<rparr>, 1)
   \<and> ensureThread ''c1'' 2 (new_thread ''t-2'')
        \<lparr>conversationThreadMap = [(''c1'', ''t-1'')], conversationThreadTimestamps = [(''c1'', 1)]\<rparr>
     = (Inr ''t-1'', \<lparr>conversationThreadMap = [(''c1'', ''t-1'')],
                      conversationThreadTimestamps = [(''c1'', 2)]\<rparr>, 0)
   \<and> \<not> truthy_str (map_of (conversationThreadMap empty_cache) ''c1'')
   \<and> fst (ensureThread_overlapping ''c1'' 1 (new_thread ''t-1'') 2 (new_thread ''t-2'') empty_cache)
       = Inr ''t-1''
   \<and> fst (snd (ensureThread_overlapping ''c1'' 1 (new_thread ''t-1'') 2 (new_thread ''t-2'') empty_cache))
       = Inr ''t-2''"
proof -
  have first: "ensureThread ''c1'' 1 (new_thread ''t-1'') empty_cache
     = (Inr ''t-1'', \<lparr>conversationThreadMap = [(''c1'', ''t-1'')],
                      conversationThreadTimestamps = [(''c1'', 1)]\<rparr>, 1)"
    by code_simp
  have miss: "\<not> truthy_str (map_of (conversationThreadMap empty_cache) ''c1'')"
    by (simp add: empty_cache_def)
  have ne: "''t-1'' \<noteq> []" "''t-2'' \<noteq> []" by simp_all
  note inst = sequential_ensureThread_same_thread[where conv = "''c1''" and nowA = 1
      and resA = "new_thread ''t-1''" and c = empty_cache and tid = "''t-1''"
      and cA = "\<lparr>conversationThreadMap = [(''c1'', ''t-1'')],
                      conversationThreadTimestamps = [(''c1'', 1)]\<rparr>"
      and nA = 1
      and cB = "\<lparr>conversationThreadMap = [(''c1'', ''t-1'')],
                      conversationThreadTimestamps = [(''c1'', 1)]\<rparr>"
      and nowB = 2 and resB = "new_thread ''t-2''"
      and tA = "''t-1''" and tB = "''t-2''" and iA = None and jA = None
      and iB = None and jB = None]
  from inst first miss ne show ?thesis
    by (simp add: new_thread_def split: prod.splits)
qed

section \<open>Facts about the retry loop\<close>











section \<open>Facts about rounding to doubles\<close>
















lemma parse_sse_example:
  "parseSSE onEvent [sse_example] None \<lparr>fmessages = [], lastContent = []\<rparr>
     = (None, \<lparr>fmessages = [assistant_message ''hi''], lastContent = ''hi''\<rparr>)"
  by code_simp

text \<open>A pass that resolves a thread and folds its stream into messages and content returns them.\<close>

lemma attempt_body_stream:
  assumes e: "ensureThread conv (now_ensure env) (create env) c = (Inr tid, c1, n)"
    and r: "run env = RunStream chunks rerr"
    and p: "parseSSE onEvent chunks rerr \<lparr>fmessages = [], lastContent = []\<rparr>
              = (None, \<lparr>fmessages = ms, lastContent = lc\<rparr>)"
    and lc: "lc \<noteq> []" and ms: "ms \<noteq> []"
  shows "attempt_body conv env c
           = (Inr \<lparr>messages = ms, content = lc\<rparr>, evictStaleThreads (60 * 60 * 1000) (now_evict env) c1)"
  using assms by (simp add: attempt_body_def)

section \<open>Claims about agent calls\<close>






text \<open>
  C6. Parsing the example stream and folding it with the newest-to-oldest selection of
  assistant content leaves the single assistant message and the content \<open>hi\<close>; a gateway
  call whose first pass resolves a thread and receives this stream returns that message
  list and the content \<open>hi\<close>.
\<close>

theorem sse_example_content_is_hi:
  "parseSSE onEvent [sse_example] None \<lparr>fmessages = [], lastContent = []\<rparr>
     = (None, \<lparr>fmessages = [assistant_message ''hi''], lastContent = ''hi''\<rparr>)
   \<and> (run (env 0) = RunStream [sse_example] None \<and> 0 \<le> maxRetries client
        \<and> \<not> isl (fst (ensureThread (conversationId opts) (now_ensure (env 0)) (create (env 0)) c))
      \<longrightarrow> fst (callAgentWithStream client opts env c)
            = \<lparr>messages = [assistant_message ''hi''], content = ''hi''\<rparr>)"
proof -
  have call: "fst (callAgentWithStream client opts env c)
            = \<lparr>messages = [assistant_message ''hi''], content = ''hi''\<rparr>"
    if r: "run (env 0) = RunStream [sse_example] None" and m: "0 \<le> maxRetries client"
      and t: "\<not> isl (fst (ensureThread (conversationId opts) (now_ensure (env 0)) (create (env 0)) c))"
  proof -
    obtain a c1 n where ea: "ensureThread (conversationId opts) (now_ensure (env 0)) (create (env 0)) c
        = (a, c1, n)"
      by (metis prod_cases3)
    with t obtain tid where "a = Inr tid" by (cases a) auto
    with ea have e: "ensureThread (conversationId opts) (now_ensure (env 0)) (create (env 0)) c
        = (Inr tid, c1, n)"
      by simp
    have nonempty: "''hi'' \<noteq> []" "[assistant_message ''hi''] \<noteq> []" by simp_all
    have "attempt_body (conversationId opts) (env 0) c
            = (Inr \<lparr>messages = [assistant_message ''hi''], content = ''hi''\<rparr>,
               evictStaleThreads (60 * 60 * 1000) (now_evict (env 0)) c1)"
      using attempt_body_stream[OF e r parse_sse_example nonempty] .
    then show ?thesis using m
      by (simp add: callAgentWithStream_def retry_loop.simps[of _ _ _ _ _ 0])
  qed
  with parse_sse_example show ?thesis by blast
qed

theorem sse_example_content_is_hi_witness:
  "content (fst (callAgentWithStream demo_client demo_opts example_env empty_cache)) = ''hi''"
proof -
  have r: "run (example_env 0) = RunStream [sse_example] None" by (simp add: example_env_def)
  have m: "0 \<le> maxRetries demo_client" by (simp add: demo_client_def)
  have t: "\<not> isl (fst (ensureThread (conversationId demo_opts) (now_ensure (example_env 0))
                          (create (example_env 0)) empty_cache))"
    by (simp add: ensureThread_def ensureThread_lookup_def ensureThread_store_def example_env_def
        new_thread_def body_thread_id_def empty_cache_def)
  from sse_example_content_is_hi[of example_env demo_client demo_opts empty_cache] r m t
  show ?thesis by simp
qed




section \<open>Claims about the authorization coordinator\<close>





text \<open>
  C3, as stated, fails: operations write their status whatever the status before. A reset
  while the request is pending moves \<open>pending\<close> to \<open>idle\<close>; \<open>onUnauthorized\<close> right after
  the binding-message callback moves \<open>requested\<close> to \<open>denied\<close>; the binding-message
  callback of a new attempt on a state left at \<open>approved\<close> moves \<open>approved\<close> to
  \<open>requested\<close>. None of these is a step of the chain.
\<close>

theorem operations_leave_the_chain:
  "status (authorizationState
       (apply_op OpRequestBegin (apply_op (OpBindingMessage buy_params) idle_module))) = Pending
   \<and> status (authorizationState
       (apply_op OpReset
          (apply_op OpRequestBegin (apply_op (OpBindingMessage buy_params) idle_module)))) = Idle
   \<and> \<not> chain_next Pending Idle
   \<and> status (authorizationState (apply_op (OpBindingMessage buy_params) idle_module)) = Requested
   \<and> status (authorizationState
       (apply_op (OpUnauthorized (Error ''request failed''))
          (apply_op (OpBindingMessage buy_params) idle_module))) = Denied
   \<and> \<not> chain_next Requested Denied
   \<and> status (authorizationState
       (apply_op (OpRequestSettle ResolvedTruthy)
          (apply_op OpRequestBegin (apply_op (OpBindingMessage buy_params) idle_module)))) = Approved
   \<and> status (authorizationState
       (apply_op (OpBindingMessage buy_params)
          (apply_op (OpRequestSettle ResolvedTruthy)
             (apply_op OpRequestBegin (apply_op (OpBindingMessage buy_params) idle_module)))))
       = Requested
   \<and> \<not> chain_next Approved Requested"
  by code_simp

text \<open>
  C3, amended. Every operation on the authorization state writes a fixed status, whatever
  the status before it: the binding-message callback writes \<open>requested\<close> (when it derives
  a message), the authorization-request callback writes \<open>pending\<close> and, once the poll has
  settled, \<open>approved\<close> for a truthy result and \<open>denied\<close> otherwise, \<open>onUnauthorized\<close> writes
  \<open>denied\<close>, reset and \<open>notifyShopAuthReset\<close> write \<open>idle\<close>; \<open>getAuthorizationState\<close>
  leaves the state as it is, except that it writes \<open>approved\<close> over \<open>requested\<close> when the
  checkout tool reports its own authorization as approved. So the status follows the
  chain \<open>idle \<rightarrow> requested \<rightarrow> pending \<rightarrow> approved\<close> or \<open>denied\<close> \<open>\<rightarrow> idle\<close> along an attempt
  whose operations run in that order from \<open>idle\<close>.
\<close>

theorem status_chain_of_one_attempt:
  "status (authorizationState (apply_op (OpBindingMessage params) n))
     = (if isl (createBindingMessage params) then status (authorizationState n) else Requested)
   \<and> status (authorizationState (apply_op OpRequestBegin n)) = Pending
   \<and> status (authorizationState (apply_op (OpRequestSettle r) n))
       = (if r = ResolvedTruthy then Approved else Denied)
   \<and> status (authorizationState (apply_op (OpUnauthorized e) n)) = Denied
   \<and> status (authorizationState (apply_op OpReset n)) = Idle
   \<and> status (authorizationState (apply_op OpNotifyShopReset n)) = Idle
   \<and> apply_op (OpGetState shop) n
       = (if shop = Some Approved \<and> status (authorizationState n) = Requested
          then set_status Approved n else n)
   \<and> (status (authorizationState m) = Idle \<and> \<not> isl (createBindingMessage params) \<longrightarrow>
        (let m1 = apply_op (OpBindingMessage params) m;
             m2 = apply_op OpRequestBegin m1;
             m3 = apply_op (OpRequestSettle r) m2;
             m4 = apply_op OpReset m3
         in map (\<lambda>x. status (authorizationState x)) [m, m1, m2, m3, m4]
              = [Idle, Requested, Pending, (if r = ResolvedTruthy then Approved else Denied), Idle]
            \<and> chain_next (status (authorizationState m)) (status (authorizationState m1))
            \<and> chain_next (status (authorizationState m1)) (status (authorizationState m2))
            \<and> chain_next (status (authorizationState m2)) (status (authorizationState m3))
            \<and> chain_next (status (authorizationState m3)) (status (authorizationState m4))))"
  by (cases r; cases "createBindingMessage params")
     (simp_all add: Let_def bindingMessage_def onAuthorizationRequest_begin_def
        onAuthorizationRequest_settle_def resetAuthorizationState_def notifyShopAuthReset_def
        getAuthorizationState_def onUnauthorized_def
        set_status_def updateAuthorizationStatusMessage_def clearAuthorizationStatusMessages_def)

theorem status_chain_of_one_attempt_witness:
  "status (authorizationState idle_module) = Idle
   \<and> \<not> isl (createBindingMessage buy_params)
   \<and> map (\<lambda>x. status (authorizationState x))
     [idle_module,
      apply_op (OpBindingMessage buy_params) idle_module,
      apply_op OpRequestBegin (apply_op (OpBindingMessage buy_params) idle_module),
      apply_op (OpRequestSettle ResolvedTruthy)
        (apply_op OpRequestBegin (apply_op (OpBindingMessage buy_params) idle_module)),
      apply_op OpReset (apply_op (OpRequestSettle ResolvedTruthy)
        (apply_op OpRequestBegin (apply_op (OpBindingMessage buy_params) idle_module)))]
     = [Idle, Requested, Pending, Approved, Idle]"
proof -
  have i: "status (authorizationState idle_module) = Idle"
    by (simp add: idle_module_def idle_state_def)
  have b: "\<not> isl (createBindingMessage buy_params)" by code_simp
  from status_chain_of_one_attempt[where m = idle_module and params = buy_params
      and r = ResolvedTruthy] i b
  show ?thesis by (simp add: Let_def)
qed


end
